theory Spec2Isabelle
  imports Main "HOL-Library.AList" "HOL-Library.Char_ord" "HOL-Library.List_Lexorder"
begin

section \<open>Stock management endpoints (src/backend/routers/stock.py)\<close>

text \<open>
  The router translates each HTTP verb into one or two calls on two MongoDB
  collections, \<open>stock_collection\<close> and \<open>teachers_collection\<close>. Documents are Python
  dictionaries; a handler either returns a dictionary (or a list) or raises.
  The embedding keeps this shape: a document is an association list from field
  names to values, a collection is the list of its documents in natural order,
  the database is a record that every mutating handler takes and returns, and
  every \<open>raise\<close> is the \<open>Inl\<close> branch of a sum.
\<close>

subsection \<open>Values, documents, exceptions\<close>

text \<open>
  The values that occur in the fields of a stored stock document: strings,
  integers, and the \<open>ObjectId\<close> that the driver puts under \<open>_id\<close>.
\<close>

datatype pyval = is_VStr: VStr (un_VStr: string)
  | is_VInt: VInt (un_VInt: int)
  | is_VOid: VOid (un_VOid: nat)

type_synonym doc = "(string \<times> pyval) list"

text \<open>
  \<open>HTTPException status_code detail\<close> is what the handlers raise themselves;
  \<open>KeyError\<close> and \<open>TypeError\<close> are what Python raises under them when a
  subscript or a comparison fails.
\<close>

datatype error = HTTPException nat string | KeyError string | TypeError

text \<open>\<open>item[k]\<close>: the value under the key, or \<open>KeyError\<close>.\<close>

definition dict_get :: "doc \<Rightarrow> string \<Rightarrow> error + pyval" where
  "dict_get d k = (case map_of d k of None \<Rightarrow> Inl (KeyError k) | Some v \<Rightarrow> Inr v)"

text \<open>\<open>item.pop(k, None)\<close>, for its effect on the dictionary.\<close>

definition dict_pop :: "string \<Rightarrow> doc \<Rightarrow> doc" where
  "dict_pop k d = AList.delete k d"

text \<open>
  \<open>a < b\<close> on values: defined inside one type (integers by value, strings
  lexicographically by character code, ObjectIds by their bytes), a
  \<open>TypeError\<close> across types.
\<close>

fun py_lt :: "pyval \<Rightarrow> pyval \<Rightarrow> error + bool" where
  "py_lt (VInt a) (VInt b) = Inr (a < b)"
| "py_lt (VStr a) (VStr b) = Inr (a < b)"
| "py_lt (VOid a) (VOid b) = Inr (a < b)"
| "py_lt _ _ = Inl TypeError"

text \<open>
  \<open>sorted(xs)\<close>: the sort compares with \<open><\<close>, so a list of one type comes back
  in ascending order and a list that mixes types raises \<open>TypeError\<close>. Lists of
  length 0 or 1 are never compared.
\<close>

definition py_sorted :: "pyval list \<Rightarrow> error + pyval list" where
  "py_sorted xs =
     (if list_all is_VStr xs then Inr (map VStr (sort (map un_VStr xs)))
      else if list_all is_VInt xs then Inr (map VInt (sort (map un_VInt xs)))
      else if list_all is_VOid xs then Inr (map VOid (sort (map un_VOid xs)))
      else Inl TypeError)"

text \<open>Truthiness, as \<open>if x:\<close> and \<open>if not x:\<close> read an optional value.\<close>

definition truthy_str :: "string option \<Rightarrow> bool" where
  "truthy_str s = (case s of None \<Rightarrow> False | Some x \<Rightarrow> x \<noteq> [])"

definition truthy_doc :: "doc option \<Rightarrow> bool" where
  "truthy_doc d = (case d of None \<Rightarrow> False | Some x \<Rightarrow> x \<noteq> [])"

definition truthy_bool :: "bool option \<Rightarrow> bool" where
  "truthy_bool b = (case b of None \<Rightarrow> False | Some x \<Rightarrow> x)"

text \<open>\<open>f"{n}"\<close> for an integer: its decimal digits, with a minus sign.\<close>

definition digit :: "nat \<Rightarrow> char" where
  "digit n = ''0123456789'' ! (n mod 10)"

fun str_nat :: "nat \<Rightarrow> string" where
  "str_nat n = (if n < 10 then [digit n] else str_nat (n div 10) @ [digit n])"

definition str_int :: "int \<Rightarrow> string" where
  "str_int i = (if i < 0 then CHR ''-'' # str_nat (nat (- i)) else str_nat (nat i))"

subsection \<open>The collections\<close>

text \<open>
  Modelled from the spec: the database module that binds \<open>stock_collection\<close>
  and \<open>teachers_collection\<close> is not among the sources, and the operations the
  handlers call on the two collections belong to the document store. The spec
  describes a record store that filters by exact match, keeps a natural order,
  and reports the number of rows a write modified or deleted, with zero rows
  modified when an update sets a field to the value it already has. The
  operations are written out here for the queries the handlers send: a filter
  document of equalities, and one \<open>$set\<close> of one field.
\<close>

type_synonym collection = "doc list"

text \<open>A document matches a filter when it holds every pair of the filter.\<close>

definition matches :: "doc \<Rightarrow> doc \<Rightarrow> bool" where
  "matches query d = list_all (\<lambda>(k, v). map_of d k = Some v) query"

text \<open>\<open>find(query)\<close>: the matching documents, in natural order.\<close>

definition find_docs :: "collection \<Rightarrow> doc \<Rightarrow> doc list" where
  "find_docs c query = filter (matches query) c"

text \<open>\<open>find_one(query)\<close>: the first matching document, or \<open>None\<close>.\<close>

definition find_one :: "collection \<Rightarrow> doc \<Rightarrow> doc option" where
  "find_one c query = List.find (matches query) c"

text \<open>
  \<open>insert_one(document)\<close>: a document without \<open>_id\<close> gets a new \<open>ObjectId\<close>
  as its first field. \<open>ObjectId()\<close> never repeats, so the unique index on
  \<open>_id\<close> cannot reject the insert.
\<close>

definition insert_one :: "collection \<Rightarrow> nat \<Rightarrow> doc \<Rightarrow> collection" where
  "insert_one c oid d =
     c @ [if ''_id'' \<in> set (map fst d) then d else (''_id'', VOid oid) # d]"

text \<open>
  \<open>update_one(query, {"$set": {k: v}})\<close>: the first matching document gets the
  field; the second component is \<open>modified_count\<close>, which is 1 when the
  document changed and 0 when nothing matched or the \<open>$set\<close> left the document
  as it was.
\<close>

fun update_one :: "collection \<Rightarrow> doc \<Rightarrow> string \<Rightarrow> pyval \<Rightarrow> collection \<times> nat" where
  "update_one [] query k v = ([], 0)"
| "update_one (d # c) query k v =
     (if matches query d
      then (AList.update k v d # c, if AList.update k v d = d then 0 else 1)
      else (case update_one c query k v of (c', n) \<Rightarrow> (d # c', n)))"

text \<open>
  \<open>delete_one(query)\<close>: the first matching document is removed; the second
  component is \<open>deleted_count\<close>.
\<close>

fun delete_one :: "collection \<Rightarrow> doc \<Rightarrow> collection \<times> nat" where
  "delete_one [] query = ([], 0)"
| "delete_one (d # c) query =
     (if matches query d then (c, 1)
      else (case delete_one c query of (c', n) \<Rightarrow> (d # c', n)))"

text \<open>
  \<open>distinct(key)\<close>: the values found under the key, each once. The store
  promises no order for them.
\<close>

definition distinct_values :: "collection \<Rightarrow> string \<Rightarrow> pyval list" where
  "distinct_values c k = remdups (List.map_filter (\<lambda>d. map_of d k) c)"

text \<open>
  The database the handlers work on: the two collections, and the source of
  fresh \<open>ObjectId\<close>s.
\<close>

record database =
  stock_collection :: collection
  teachers_collection :: collection
  next_oid :: nat

subsection \<open>The request models\<close>

record StockItem =
  item_id :: string
  name :: string
  category :: string
  quantity :: int
  unit :: string
  location :: string
  min_quantity :: int

text \<open>\<open>StockUpdate\<close> has the one field \<open>quantity\<close>.\<close>

datatype StockUpdate = StockUpdate (update_quantity: int)

text \<open>\<open>item.model_dump()\<close>: the fields in declaration order.\<close>

definition model_dump :: "StockItem \<Rightarrow> doc" where
  "model_dump item =
     [(''item_id'', VStr (item_id item)),
      (''name'', VStr (name item)),
      (''category'', VStr (category item)),
      (''quantity'', VInt (quantity item)),
      (''unit'', VStr (unit item)),
      (''location'', VStr (location item)),
      (''min_quantity'', VInt (min_quantity item))]"

subsection \<open>The read handlers\<close>

text \<open>
  The list comprehension \<open>[item for item in items if item["quantity"] <
  item["min_quantity"]]\<close>, which stops at the first item that raises.
\<close>

fun low_stock_filter :: "doc list \<Rightarrow> error + doc list" where
  "low_stock_filter [] = Inr []"
| "low_stock_filter (item # items) =
     (case dict_get item ''quantity'' of
        Inl e \<Rightarrow> Inl e
      | Inr q \<Rightarrow>
         (case dict_get item ''min_quantity'' of
            Inl e \<Rightarrow> Inl e
          | Inr m \<Rightarrow>
             (case py_lt q m of
                Inl e \<Rightarrow> Inl e
              | Inr b \<Rightarrow>
                 (case low_stock_filter items of
                    Inl e \<Rightarrow> Inl e
                  | Inr rest \<Rightarrow> Inr (if b then item # rest else rest)))))"

definition get_stock_items :: "database \<Rightarrow> string option \<Rightarrow> bool option \<Rightarrow> error + doc list" where
  "get_stock_items db category_arg low_stock =
     (let query = (case category_arg of
                     None \<Rightarrow> []
                   | Some c \<Rightarrow> if truthy_str (Some c) then [(''category'', VStr c)] else []);
          items = find_docs (stock_collection db) query;
          items = map (dict_pop ''_id'') items
      in if truthy_bool low_stock then low_stock_filter items else Inr items)"

definition get_categories :: "database \<Rightarrow> error + pyval list" where
  "get_categories db = py_sorted (distinct_values (stock_collection db) ''category'')"

definition get_stock_item :: "database \<Rightarrow> string \<Rightarrow> error + doc" where
  "get_stock_item db iid =
     (let item = find_one (stock_collection db) [(''item_id'', VStr iid)]
      in case item of
           None \<Rightarrow> Inl (HTTPException 404 ''Stock item not found'')
         | Some d \<Rightarrow>
            if \<not> truthy_doc item then Inl (HTTPException 404 ''Stock item not found'')
            else Inr (dict_pop ''_id'' d))"

subsection \<open>The mutating handlers\<close>

text \<open>
  The three mutating handlers open with the same block: a falsy
  \<open>teacher_username\<close> raises 401, and so does a username that
  \<open>teachers_collection\<close> does not hold under \<open>_id\<close>. The result is the
  exception to raise, if any.
\<close>

definition check_teacher :: "database \<Rightarrow> string option \<Rightarrow> error option" where
  "check_teacher db teacher_username =
     (case teacher_username of
        None \<Rightarrow> Some (HTTPException 401 ''Authentication required for this action'')
      | Some u \<Rightarrow>
         if \<not> truthy_str teacher_username
         then Some (HTTPException 401 ''Authentication required for this action'')
         else if \<not> truthy_doc (find_one (teachers_collection db) [(''_id'', VStr u)])
         then Some (HTTPException 401 ''Invalid teacher credentials'')
         else None)"

definition create_stock_item ::
    "database \<Rightarrow> StockItem \<Rightarrow> string option \<Rightarrow> (error + doc) \<times> database" where
  "create_stock_item db item teacher_username =
     (case check_teacher db teacher_username of
        Some e \<Rightarrow> (Inl e, db)
      | None \<Rightarrow>
         if truthy_doc (find_one (stock_collection db) [(''item_id'', VStr (item_id item))])
         then (Inl (HTTPException 400 ''Item ID already exists''), db)
         else
           (Inr [(''message'', VStr (''Stock item '' @ item_id item @ '' created successfully''))],
            db\<lparr>stock_collection :=
                  insert_one (stock_collection db) (next_oid db) (model_dump item),
               next_oid := Suc (next_oid db)\<rparr>))"

definition update_stock_quantity ::
    "database \<Rightarrow> string \<Rightarrow> StockUpdate \<Rightarrow> string option \<Rightarrow> (error + doc) \<times> database" where
  "update_stock_quantity db iid upd teacher_username =
     (case check_teacher db teacher_username of
        Some e \<Rightarrow> (Inl e, db)
      | None \<Rightarrow>
         if \<not> truthy_doc (find_one (stock_collection db) [(''item_id'', VStr iid)])
         then (Inl (HTTPException 404 ''Stock item not found''), db)
         else
           (case update_one (stock_collection db) [(''item_id'', VStr iid)]
                   ''quantity'' (VInt (update_quantity upd)) of
              (c', modified_count) \<Rightarrow>
                if modified_count = 0
                then (Inl (HTTPException 500 ''Failed to update stock item''),
                      db\<lparr>stock_collection := c'\<rparr>)
                else
                  (Inr [(''message'', VStr (''Stock item '' @ iid @ '' quantity updated to ''
                                            @ str_int (update_quantity upd)))],
                   db\<lparr>stock_collection := c'\<rparr>)))"

definition delete_stock_item ::
    "database \<Rightarrow> string \<Rightarrow> string option \<Rightarrow> (error + doc) \<times> database" where
  "delete_stock_item db iid teacher_username =
     (case check_teacher db teacher_username of
        Some e \<Rightarrow> (Inl e, db)
      | None \<Rightarrow>
         if \<not> truthy_doc (find_one (stock_collection db) [(''item_id'', VStr iid)])
         then (Inl (HTTPException 404 ''Stock item not found''), db)
         else
           (case delete_one (stock_collection db) [(''item_id'', VStr iid)] of
              (c', deleted_count) \<Rightarrow>
                if deleted_count = 0
                then (Inl (HTTPException 500 ''Failed to delete stock item''),
                      db\<lparr>stock_collection := c'\<rparr>)
                else
                  (Inr [(''message'', VStr (''Stock item '' @ iid @ '' deleted successfully''))],
                   db\<lparr>stock_collection := c'\<rparr>)))"

subsection \<open>Predicates of the specification\<close>

text \<open>
  The credential store holds the identifier: some teacher document has it
  under \<open>_id\<close>.
\<close>

definition credential_exists :: "database \<Rightarrow> string \<Rightarrow> bool" where
  "credential_exists db u =
     list_ex (\<lambda>d. map_of d ''_id'' = Some (VStr u)) (teachers_collection db)"

text \<open>
  A valid credential is one that is supplied, not empty, and held by the
  credential store. Everything else is a missing or invalid credential.
\<close>

definition valid_credential :: "database \<Rightarrow> string option \<Rightarrow> bool" where
  "valid_credential db teacher_username =
     (case teacher_username of
        None \<Rightarrow> False
      | Some u \<Rightarrow> u \<noteq> [] \<and> credential_exists db u)"

text \<open>The record store holds an item with the identifier.\<close>

definition item_exists :: "database \<Rightarrow> string \<Rightarrow> bool" where
  "item_exists db iid =
     list_ex (\<lambda>d. map_of d ''item_id'' = Some (VStr iid)) (stock_collection db)"

text \<open>
  The failure taxonomy is read off the status code: 401 Unauthorized, 400
  Conflict, 404 NotFound, 500 InternalError.
\<close>

definition fails_with :: "error + 'a \<Rightarrow> nat \<Rightarrow> bool" where
  "fails_with r code = (case r of Inl (HTTPException c _) \<Rightarrow> c = code | _ \<Rightarrow> False)"

text \<open>The fields that \<open>StockItem\<close> declares.\<close>

definition declared_fields :: "string list" where
  "declared_fields =
     [''item_id'', ''name'', ''category'', ''quantity'', ''unit'', ''location'', ''min_quantity'']"

definition has_str :: "doc \<Rightarrow> string \<Rightarrow> bool" where
  "has_str d k = (case map_of d k of Some (VStr _) \<Rightarrow> True | _ \<Rightarrow> False)"

definition has_int :: "doc \<Rightarrow> string \<Rightarrow> bool" where
  "has_int d k = (case map_of d k of Some (VInt _) \<Rightarrow> True | _ \<Rightarrow> False)"

text \<open>
  A stored stock document, as the data model has it: the declared fields
  with their declared types, and the store's \<open>_id\<close>.
\<close>

definition stock_doc :: "doc \<Rightarrow> bool" where
  "stock_doc d =
     (distinct (map fst d) \<and> set (map fst d) = set (''_id'' # declared_fields)
      \<and> list_all (has_str d) [''item_id'', ''name'', ''category'', ''unit'', ''location'']
      \<and> list_all (has_int d) [''quantity'', ''min_quantity''])"

definition stock_docs_ok :: "database \<Rightarrow> bool" where
  "stock_docs_ok db = list_all stock_doc (stock_collection db)"

text \<open>The data model's invariant: no two stored items share an identifier.\<close>

definition item_ids :: "collection \<Rightarrow> pyval list" where
  "item_ids c = List.map_filter (\<lambda>d. map_of d ''item_id'') c"

definition unique_item_ids :: "database \<Rightarrow> bool" where
  "unique_item_ids db = distinct (item_ids (stock_collection db))"

text \<open>Low stock: the quantity is strictly less than the minimum threshold.\<close>

definition below_minimum :: "doc \<Rightarrow> bool" where
  "below_minimum d =
     (case (map_of d ''quantity'', map_of d ''min_quantity'') of
        (Some (VInt q), Some (VInt m)) \<Rightarrow> q < m
      | _ \<Rightarrow> False)"

definition has_category :: "string \<Rightarrow> doc \<Rightarrow> bool" where
  "has_category c d = (map_of d ''category'' = Some (VStr c))"

subsection \<open>A small school store\<close>

text \<open>
  Three stored items and one teacher. \<open>A1\<close> is below its threshold, \<open>A2\<close> is
  above it, \<open>A3\<close> is exactly at it; \<open>A1\<close> and \<open>A3\<close> share a category.
\<close>

definition stored_a1 :: doc where
  "stored_a1 =
     [(''_id'', VOid 0), (''item_id'', VStr ''A1''), (''name'', VStr ''Brushes''),
      (''category'', VStr ''Art Supplies''), (''quantity'', VInt 2), (''unit'', VStr ''box''),
      (''location'', VStr ''Room 12''), (''min_quantity'', VInt 5)]"

definition stored_a2 :: doc where
  "stored_a2 =
     [(''_id'', VOid 1), (''item_id'', VStr ''A2''), (''name'', VStr ''Footballs''),
      (''category'', VStr ''Sports Equipment''), (''quantity'', VInt 10), (''unit'', VStr ''pcs''),
      (''location'', VStr ''Gym''), (''min_quantity'', VInt 3)]"

definition stored_a3 :: doc where
  "stored_a3 =
     [(''_id'', VOid 2), (''item_id'', VStr ''A3''), (''name'', VStr ''Canvas''),
      (''category'', VStr ''Art Supplies''), (''quantity'', VInt 4), (''unit'', VStr ''roll''),
      (''location'', VStr ''Room 12''), (''min_quantity'', VInt 4)]"

definition example_stock :: collection where
  "example_stock = [stored_a1, stored_a2, stored_a3]"

definition example_teacher :: doc where
  "example_teacher = [(''_id'', VStr ''mrodriguez''), (''role'', VStr ''teacher'')]"

definition example_db :: database where
  "example_db =
     \<lparr>stock_collection = example_stock,
      teachers_collection = [example_teacher],
      next_oid = 3\<rparr>"

text \<open>The same three items as a read returns them, without \<open>_id\<close>.\<close>

definition listed_a1 :: doc where
  "listed_a1 =
     [(''item_id'', VStr ''A1''), (''name'', VStr ''Brushes''),
      (''category'', VStr ''Art Supplies''), (''quantity'', VInt 2), (''unit'', VStr ''box''),
      (''location'', VStr ''Room 12''), (''min_quantity'', VInt 5)]"

definition listed_a2 :: doc where
  "listed_a2 =
     [(''item_id'', VStr ''A2''), (''name'', VStr ''Footballs''),
      (''category'', VStr ''Sports Equipment''), (''quantity'', VInt 10), (''unit'', VStr ''pcs''),
      (''location'', VStr ''Gym''), (''min_quantity'', VInt 3)]"

definition listed_a3 :: doc where
  "listed_a3 =
     [(''item_id'', VStr ''A3''), (''name'', VStr ''Canvas''),
      (''category'', VStr ''Art Supplies''), (''quantity'', VInt 4), (''unit'', VStr ''roll''),
      (''location'', VStr ''Room 12''), (''min_quantity'', VInt 4)]"

text \<open>A new item, and an item that reuses the identifier of \<open>A1\<close>.\<close>

definition example_item :: StockItem where
  "example_item =
     \<lparr>item_id = ''B1'', name = ''Beakers'', category = ''Lab'', quantity = 6,
      unit = ''pcs'', location = ''Lab 2'', min_quantity = 2\<rparr>"

definition duplicate_item :: StockItem where
  "duplicate_item =
     \<lparr>item_id = ''A1'', name = ''Beakers'', category = ''Lab'', quantity = 6,
      unit = ''pcs'', location = ''Lab 2'', min_quantity = 2\<rparr>"

section \<open>Properties\<close>

subsection \<open>Queries on one field\<close>

lemma matches_single: "matches [(k, v)] d \<longleftrightarrow> map_of d k = Some v"
  by (simp add: matches_def)

text \<open>
  A document found by a query on one field holds that field, so it is never
  the empty dictionary: \<open>if not item\<close> tests only whether anything was found.
\<close>

lemma truthy_find_one:
  "truthy_doc (find_one c [(k, v)]) \<longleftrightarrow> (\<exists>d\<in>set c. map_of d k = Some v)"
proof (cases "find_one c [(k, v)]")
  case None
  then have "\<forall>d\<in>set c. map_of d k \<noteq> Some v"
    by (simp add: find_one_def find_None_iff matches_single)
  with None show ?thesis by (simp add: truthy_doc_def)
next
  case (Some d)
  then have "d \<in> set c" and "map_of d k = Some v"
    by (auto simp: find_one_def find_Some_iff matches_single)
  moreover from this have "d \<noteq> []" by auto
  ultimately show ?thesis using Some by (auto simp: truthy_doc_def)
qed

lemma item_exists_truthy:
  "truthy_doc (find_one (stock_collection db) [(''item_id'', VStr iid)]) \<longleftrightarrow> item_exists db iid"
  by (simp add: truthy_find_one item_exists_def list_ex_iff)

subsection \<open>The authentication block\<close>

lemma check_teacher_valid: "check_teacher db u = None \<longleftrightarrow> valid_credential db u"
  by (auto simp: check_teacher_def valid_credential_def credential_exists_def truthy_str_def
      truthy_find_one list_ex_iff split: option.splits)

lemma check_teacher_invalid:
  assumes "\<not> valid_credential db u"
  shows "check_teacher db u
           = Some (HTTPException 401 ''Authentication required for this action'')
       \<or> check_teacher db u = Some (HTTPException 401 ''Invalid teacher credentials'')"
  using assms check_teacher_valid[of db u]
  by (auto simp: check_teacher_def split: option.splits if_splits)

lemma check_teacher_stock: "check_teacher (db\<lparr>stock_collection := s\<rparr>) u = check_teacher db u"
  by (simp add: check_teacher_def split: option.splits)

subsection \<open>Facts about the small school store\<close>

lemmas example_defs = example_db_def example_stock_def example_teacher_def
  stored_a1_def stored_a2_def stored_a3_def

lemma example_valid: "valid_credential example_db (Some ''mrodriguez'')"
  by (simp add: valid_credential_def credential_exists_def example_defs)

lemma example_invalid: "\<not> valid_credential example_db (Some ''intruder'')"
  by (simp add: valid_credential_def credential_exists_def example_defs)

lemma example_docs_ok: "stock_docs_ok example_db"
  by (simp add: stock_docs_ok_def example_defs stock_doc_def declared_fields_def
      has_str_def has_int_def)

lemma example_unique: "unique_item_ids example_db"
  by (simp add: unique_item_ids_def item_ids_def example_defs)

lemma example_A1: "item_exists example_db ''A1''"
  by (simp add: item_exists_def example_defs)

lemma example_A2: "item_exists example_db ''A2''"
  by (simp add: item_exists_def example_defs)

lemma example_B1: "\<not> item_exists example_db ''B1''"
  by (simp add: item_exists_def example_defs)

lemma example_list_all:
  "get_stock_items example_db None None = Inr [listed_a1, listed_a2, listed_a3]"
  by (simp add: get_stock_items_def example_defs find_docs_def matches_def
      truthy_bool_def dict_pop_def listed_a1_def listed_a2_def listed_a3_def)

subsection \<open>The credential check comes first\<close>

text \<open>
  C1. A create, an update or a delete whose credential identifier is missing
  or is not in the credential store fails with Unauthorized (status 401), and
  the database it leaves behind is the database it was given: nothing was
  written before the failure.
\<close>

theorem unauthorized_leaves_store_unchanged:
  assumes "\<not> valid_credential db teacher_username"
  shows "fails_with (fst (create_stock_item db item teacher_username)) 401
       \<and> snd (create_stock_item db item teacher_username) = db
       \<and> fails_with (fst (update_stock_quantity db iid upd teacher_username)) 401
       \<and> snd (update_stock_quantity db iid upd teacher_username) = db
       \<and> fails_with (fst (delete_stock_item db iid teacher_username)) 401
       \<and> snd (delete_stock_item db iid teacher_username) = db"
  using check_teacher_invalid[OF assms]
  by (auto simp: create_stock_item_def update_stock_quantity_def delete_stock_item_def
      fails_with_def)

theorem unauthorized_leaves_store_unchanged_witness:
  "\<not> valid_credential example_db (Some ''intruder'')
   \<and> fails_with (fst (create_stock_item example_db example_item (Some ''intruder''))) 401
   \<and> snd (create_stock_item example_db example_item (Some ''intruder'')) = example_db
   \<and> fails_with (fst (update_stock_quantity example_db ''A1'' (StockUpdate 7)
                        (Some ''intruder''))) 401
   \<and> snd (update_stock_quantity example_db ''A1'' (StockUpdate 7) (Some ''intruder''))
       = example_db
   \<and> fails_with (fst (delete_stock_item example_db ''A1'' (Some ''intruder''))) 401
   \<and> snd (delete_stock_item example_db ''A1'' (Some ''intruder'')) = example_db"
  using unauthorized_leaves_store_unchanged[OF example_invalid,
          of example_item "''A1''" "StockUpdate 7"] example_invalid
  by simp

text \<open>
  C9. With a missing or invalid credential the result is Unauthorized whatever
  the record store holds: the stock collection can be replaced by any other
  and the three handlers still answer 401, never 404 for an identifier that is
  not stored and never 400 for an identifier that is.
\<close>

theorem unauthorized_whatever_the_store:
  assumes "\<not> valid_credential db teacher_username"
  shows "fails_with (fst (create_stock_item (db\<lparr>stock_collection := stock\<rparr>)
                            item teacher_username)) 401
       \<and> \<not> fails_with (fst (create_stock_item (db\<lparr>stock_collection := stock\<rparr>)
                                item teacher_username)) 400
       \<and> fails_with (fst (update_stock_quantity (db\<lparr>stock_collection := stock\<rparr>)
                              iid upd teacher_username)) 401
       \<and> \<not> fails_with (fst (update_stock_quantity (db\<lparr>stock_collection := stock\<rparr>)
                                iid upd teacher_username)) 404
       \<and> fails_with (fst (delete_stock_item (db\<lparr>stock_collection := stock\<rparr>)
                              iid teacher_username)) 401
       \<and> \<not> fails_with (fst (delete_stock_item (db\<lparr>stock_collection := stock\<rparr>)
                                iid teacher_username)) 404"
  using check_teacher_invalid[OF assms]
  by (auto simp: create_stock_item_def update_stock_quantity_def delete_stock_item_def
      fails_with_def check_teacher_stock)

theorem unauthorized_whatever_the_store_witness:
  "\<not> valid_credential example_db (Some ''intruder'')
   \<and> fails_with (fst (create_stock_item (example_db\<lparr>stock_collection := [stored_a1]\<rparr>)
                        duplicate_item (Some ''intruder''))) 401
   \<and> fails_with (fst (update_stock_quantity (example_db\<lparr>stock_collection := []\<rparr>)
                        ''A1'' (StockUpdate 7) (Some ''intruder''))) 401
   \<and> fails_with (fst (delete_stock_item (example_db\<lparr>stock_collection := []\<rparr>)
                        ''A1'' (Some ''intruder''))) 401"
  using unauthorized_whatever_the_store[OF example_invalid, of "[stored_a1]" duplicate_item]
        unauthorized_whatever_the_store[OF example_invalid, of "[]" _ "''A1''" "StockUpdate 7"]
        example_invalid
  by simp

subsection \<open>Create\<close>

text \<open>
  C5. With a valid credential, creating an item whose identifier is already
  stored fails with Conflict (status 400, "Item ID already exists") whatever
  the other fields are, and the database is left as it was.
\<close>

theorem create_duplicate_conflict:
  assumes "valid_credential db teacher_username" and "item_exists db (item_id item)"
  shows "create_stock_item db item teacher_username
           = (Inl (HTTPException 400 ''Item ID already exists''), db)"
  using assms
  by (simp add: create_stock_item_def check_teacher_valid[THEN iffD2] item_exists_truthy)

theorem create_duplicate_conflict_witness:
  "valid_credential example_db (Some ''mrodriguez'')
   \<and> item_exists example_db (item_id duplicate_item)
   \<and> create_stock_item example_db duplicate_item (Some ''mrodriguez'')
       = (Inl (HTTPException 400 ''Item ID already exists''), example_db)"
proof -
  have h: "item_exists example_db (item_id duplicate_item)"
    using example_A1 by (simp add: duplicate_item_def)
  from create_duplicate_conflict[OF example_valid h] example_valid h
  show ?thesis by simp
qed

lemma find_one_append_new:
  assumes "\<forall>d\<in>set c. \<not> matches q d" and "matches q d'"
  shows "find_one (c @ [d']) q = Some d'"
  using assms by (induction c) (auto simp: find_one_def)

lemma insert_one_dump:
  "insert_one c n (model_dump item) = c @ [(''_id'', VOid n) # model_dump item]"
  by (simp add: insert_one_def model_dump_def)

lemma pop_id_dump: "dict_pop ''_id'' ((''_id'', v) # model_dump item) = model_dump item"
  by (simp add: dict_pop_def model_dump_def)

text \<open>
  C2. With a valid credential and an identifier that is not stored yet,
  create succeeds, and a get of that identifier on the resulting database
  succeeds and returns the seven fields exactly as they were supplied:
  \<open>item_id\<close>, \<open>name\<close>, \<open>category\<close>, \<open>quantity\<close>, \<open>unit\<close>, \<open>location\<close>,
  \<open>min_quantity\<close>.
\<close>

theorem create_then_get:
  assumes "valid_credential db teacher_username" and "\<not> item_exists db (item_id item)"
  shows "\<exists>msg db'. create_stock_item db item teacher_username = (Inr msg, db')
          \<and> get_stock_item db' (item_id item)
              = Inr [(''item_id'', VStr (item_id item)),
                     (''name'', VStr (name item)),
                     (''category'', VStr (category item)),
                     (''quantity'', VInt (quantity item)),
                     (''unit'', VStr (unit item)),
                     (''location'', VStr (location item)),
                     (''min_quantity'', VInt (min_quantity item))]"
proof -
  let ?new = "(''_id'', VOid (next_oid db)) # model_dump item"
  let ?q = "[(''item_id'', VStr (item_id item))]"
  have "\<forall>d\<in>set (stock_collection db). \<not> matches ?q d"
    using assms(2) by (simp add: item_exists_def list_ex_iff matches_single)
  moreover have "matches ?q ?new" by (simp add: matches_single model_dump_def)
  ultimately have f: "find_one (stock_collection db @ [?new]) ?q = Some ?new"
    by (rule find_one_append_new)
  have t: "truthy_doc (Some ?new)" by (simp add: truthy_doc_def)
  have "\<exists>msg db'. create_stock_item db item teacher_username = (Inr msg, db')
          \<and> get_stock_item db' (item_id item) = Inr (model_dump item)"
    using assms f t
    by (simp add: create_stock_item_def check_teacher_valid[THEN iffD2] item_exists_truthy
        get_stock_item_def insert_one_dump pop_id_dump)
  then show ?thesis by (simp add: model_dump_def)
qed

theorem create_then_get_witness:
  "valid_credential example_db (Some ''mrodriguez'')
   \<and> \<not> item_exists example_db (item_id example_item)
   \<and> get_stock_item (snd (create_stock_item example_db example_item (Some ''mrodriguez'')))
        ''B1''
       = Inr [(''item_id'', VStr ''B1''), (''name'', VStr ''Beakers''),
              (''category'', VStr ''Lab''), (''quantity'', VInt 6), (''unit'', VStr ''pcs''),
              (''location'', VStr ''Lab 2''), (''min_quantity'', VInt 2)]"
proof -
  have h: "\<not> item_exists example_db (item_id example_item)"
    using example_B1 by (simp add: example_item_def)
  from create_then_get[OF example_valid h] obtain msg db' where
    "create_stock_item example_db example_item (Some ''mrodriguez'') = (Inr msg, db')"
    "get_stock_item db' (item_id example_item)
       = Inr [(''item_id'', VStr (item_id example_item)),
              (''name'', VStr (name example_item)),
              (''category'', VStr (category example_item)),
              (''quantity'', VInt (quantity example_item)),
              (''unit'', VStr (unit example_item)),
              (''location'', VStr (location example_item)),
              (''min_quantity'', VInt (min_quantity example_item))]"
    by blast
  then have "get_stock_item (snd (create_stock_item example_db example_item
                                   (Some ''mrodriguez''))) ''B1''
       = Inr [(''item_id'', VStr ''B1''), (''name'', VStr ''Beakers''),
              (''category'', VStr ''Lab''), (''quantity'', VInt 6), (''unit'', VStr ''pcs''),
              (''location'', VStr ''Lab 2''), (''min_quantity'', VInt 2)]"
    by (simp add: example_item_def)
  with example_valid h show ?thesis by simp
qed

subsection \<open>Reading documents\<close>

lemma has_int_iff: "has_int d k \<longleftrightarrow> (\<exists>n. map_of d k = Some (VInt n))"
  by (auto simp: has_int_def split: option.splits pyval.splits)

lemma has_str_iff: "has_str d k \<longleftrightarrow> (\<exists>s. map_of d k = Some (VStr s))"
  by (auto simp: has_str_def split: option.splits pyval.splits)

lemma map_of_pop: "k' \<noteq> k \<Longrightarrow> map_of (dict_pop k d) k' = map_of d k'"
  by (simp add: dict_pop_def)

lemma keys_pop: "set (map fst (dict_pop k d)) = set (map fst d) - {k}"
  by (simp add: dict_pop_def delete_keys)

lemma low_stock_filter_ints:
  assumes "\<forall>d\<in>set items. has_int d ''quantity'' \<and> has_int d ''min_quantity''"
  shows "low_stock_filter items = Inr (filter below_minimum items)"
  using assms
proof (induction items)
  case Nil
  show ?case by simp
next
  case (Cons d items)
  then obtain q m where
    "map_of d ''quantity'' = Some (VInt q)" "map_of d ''min_quantity'' = Some (VInt m)"
    by (auto simp: has_int_iff)
  with Cons show ?case
    by (simp add: dict_get_def below_minimum_def)
qed

lemma low_stock_filter_subset: "low_stock_filter items = Inr r \<Longrightarrow> set r \<subseteq> set items"
proof (induction items arbitrary: r)
  case Nil
  then show ?case by simp
next
  case (Cons d items)
  then show ?case
    by (auto split: sum.splits if_splits)
qed

lemma popped_ints:
  assumes "stock_docs_ok db"
    and "d \<in> set (map (dict_pop ''_id'') (find_docs (stock_collection db) q))"
  shows "has_int d ''quantity'' \<and> has_int d ''min_quantity''"
proof -
  from assms(2) obtain d0 where d0: "d0 \<in> set (stock_collection db)" "d = dict_pop ''_id'' d0"
    by (auto simp: find_docs_def)
  with assms(1) have "stock_doc d0" by (simp add: stock_docs_ok_def list_all_iff)
  then have "has_int d0 ''quantity''" "has_int d0 ''min_quantity''"
    by (simp_all add: stock_doc_def)
  then show ?thesis by (simp add: d0 has_int_def map_of_pop)
qed

lemma get_stock_items_subset:
  assumes "get_stock_items db category_arg low_stock = Inr items"
  shows "set items \<subseteq> dict_pop ''_id'' ` set (find_docs (stock_collection db)
           (case category_arg of None \<Rightarrow> []
            | Some c \<Rightarrow> if truthy_str (Some c) then [(''category'', VStr c)] else []))"
proof (cases "truthy_bool low_stock")
  case True
  with assms have "low_stock_filter (map (dict_pop ''_id'') (find_docs (stock_collection db)
           (case category_arg of None \<Rightarrow> []
            | Some c \<Rightarrow> if truthy_str (Some c) then [(''category'', VStr c)] else [])))
         = Inr items"
    by (simp add: get_stock_items_def Let_def)
  from low_stock_filter_subset[OF this] show ?thesis by simp
next
  case False
  with assms show ?thesis by (auto simp: get_stock_items_def Let_def)
qed

text \<open>
  C3. On a store of stock documents, listing with \<open>low_stock=true\<close> returns
  exactly those items of the (category-filtered) listing whose quantity is
  strictly less than their minimum quantity, in the order of the listing; no
  returned item has a quantity equal to its minimum quantity.
\<close>

theorem low_stock_exact:
  assumes "stock_docs_ok db"
  shows "\<exists>items. get_stock_items db category_arg None = Inr items
          \<and> get_stock_items db category_arg (Some True) = Inr (filter below_minimum items)
          \<and> (\<forall>d\<in>set (filter below_minimum items).
                map_of d ''quantity'' \<noteq> map_of d ''min_quantity'')"
proof -
  define q where "q = (case category_arg of None \<Rightarrow> []
     | Some c \<Rightarrow> if truthy_str (Some c) then [(''category'', VStr c)] else [])"
  define items where "items = map (dict_pop ''_id'') (find_docs (stock_collection db) q)"
  have a: "get_stock_items db category_arg None = Inr items"
    by (simp add: get_stock_items_def items_def q_def truthy_bool_def)
  have "\<forall>d\<in>set items. has_int d ''quantity'' \<and> has_int d ''min_quantity''"
    unfolding items_def using popped_ints[OF assms] by blast
  then have "low_stock_filter items = Inr (filter below_minimum items)"
    by (rule low_stock_filter_ints)
  then have b: "get_stock_items db category_arg (Some True) = Inr (filter below_minimum items)"
    by (simp add: get_stock_items_def items_def q_def truthy_bool_def)
  have c: "\<forall>d\<in>set (filter below_minimum items).
             map_of d ''quantity'' \<noteq> map_of d ''min_quantity''"
    by (auto simp: below_minimum_def split: option.splits pyval.splits)
  from a b c show ?thesis by blast
qed

theorem low_stock_exact_witness:
  "stock_docs_ok example_db
   \<and> get_stock_items example_db None None = Inr [listed_a1, listed_a2, listed_a3]
   \<and> get_stock_items example_db None (Some True) = Inr [listed_a1]"
proof -
  from low_stock_exact[OF example_docs_ok, of None] obtain items where
    a: "get_stock_items example_db None None = Inr items" and
    b: "get_stock_items example_db None (Some True) = Inr (filter below_minimum items)"
    by blast
  from a example_list_all have "items = [listed_a1, listed_a2, listed_a3]" by simp
  with b have "get_stock_items example_db None (Some True) = Inr [listed_a1]"
    by (simp add: below_minimum_def listed_a1_def listed_a2_def listed_a3_def)
  with example_docs_ok example_list_all show ?thesis by simp
qed

subsection \<open>Update\<close>

lemma update_one_unchanged:
  assumes "\<forall>d\<in>set c. matches q d \<longrightarrow> map_of d k = Some v"
  shows "update_one c q k v = (c, 0)"
  using assms by (induction c) (auto simp: update_triv)

text \<open>
  C4. With a valid credential and a stored identifier, update quantity fails
  with InternalError (status 500, "Failed to update stock item") exactly when
  the store reports a \<open>modified_count\<close> of zero. In particular, when the new
  quantity is the quantity the item already has, the store modifies nothing
  and the handler answers InternalError, not success.
\<close>

theorem update_fails_iff_nothing_modified:
  assumes "valid_credential db teacher_username" and "item_exists db iid"
  shows "(fst (update_stock_quantity db iid upd teacher_username)
            = Inl (HTTPException 500 ''Failed to update stock item'')
          \<longleftrightarrow> snd (update_one (stock_collection db) [(''item_id'', VStr iid)]
                    ''quantity'' (VInt (update_quantity upd))) = 0)
       \<and> ((\<forall>d\<in>set (stock_collection db). map_of d ''item_id'' = Some (VStr iid)
              \<longrightarrow> map_of d ''quantity'' = Some (VInt (update_quantity upd)))
          \<longrightarrow> fst (update_stock_quantity db iid upd teacher_username)
                = Inl (HTTPException 500 ''Failed to update stock item''))"
proof -
  let ?u = "update_one (stock_collection db) [(''item_id'', VStr iid)]
              ''quantity'' (VInt (update_quantity upd))"
  have 1: "fst (update_stock_quantity db iid upd teacher_username)
            = Inl (HTTPException 500 ''Failed to update stock item'') \<longleftrightarrow> snd ?u = 0"
    using assms
    by (cases ?u)
      (simp add: update_stock_quantity_def check_teacher_valid[THEN iffD2] item_exists_truthy)
  have 2: "snd ?u = 0"
    if "\<forall>d\<in>set (stock_collection db). map_of d ''item_id'' = Some (VStr iid)
              \<longrightarrow> map_of d ''quantity'' = Some (VInt (update_quantity upd))"
    using update_one_unchanged[of "stock_collection db" "[(''item_id'', VStr iid)]"
            "''quantity''" "VInt (update_quantity upd)"] that
    by (simp add: matches_single)
  show ?thesis
  proof (intro conjI impI)
    show "fst (update_stock_quantity db iid upd teacher_username)
            = Inl (HTTPException 500 ''Failed to update stock item'') \<longleftrightarrow> snd ?u = 0"
      by (rule 1)
  next
    assume "\<forall>d\<in>set (stock_collection db). map_of d ''item_id'' = Some (VStr iid)
              \<longrightarrow> map_of d ''quantity'' = Some (VInt (update_quantity upd))"
    then have "snd ?u = 0" by (rule 2)
    with 1 show "fst (update_stock_quantity db iid upd teacher_username)
            = Inl (HTTPException 500 ''Failed to update stock item'')"
      by simp
  qed
qed

theorem update_fails_iff_nothing_modified_witness:
  "valid_credential example_db (Some ''mrodriguez'') \<and> item_exists example_db ''A2''
   \<and> fst (update_stock_quantity example_db ''A2'' (StockUpdate 10) (Some ''mrodriguez''))
       = Inl (HTTPException 500 ''Failed to update stock item'')
   \<and> fst (update_stock_quantity example_db ''A2'' (StockUpdate 11) (Some ''mrodriguez''))
       \<noteq> Inl (HTTPException 500 ''Failed to update stock item'')"
proof -
  have same: "\<forall>d\<in>set (stock_collection example_db). map_of d ''item_id'' = Some (VStr ''A2'')
        \<longrightarrow> map_of d ''quantity'' = Some (VInt (update_quantity (StockUpdate 10)))"
    by (simp add: example_defs)
  have other: "snd (update_one (stock_collection example_db) [(''item_id'', VStr ''A2'')]
        ''quantity'' (VInt (update_quantity (StockUpdate 11)))) \<noteq> 0"
    by (simp add: example_defs matches_def)
  from update_fails_iff_nothing_modified[OF example_valid example_A2, of "StockUpdate 10"] same
       update_fails_iff_nothing_modified[OF example_valid example_A2, of "StockUpdate 11"] other
       example_valid example_A2
  show ?thesis by blast
qed

subsection \<open>Delete\<close>

lemma item_ids_member:
  "v \<in> set (item_ids c) \<longleftrightarrow> (\<exists>d\<in>set c. map_of d ''item_id'' = Some v)"
  by (induction c) (auto simp: item_ids_def split: option.splits)

lemma delete_one_count: "snd (delete_one c q) = (if \<exists>d\<in>set c. matches q d then 1 else 0)"
  by (induction c) (auto split: prod.splits)

lemma delete_one_gone:
  assumes "distinct (item_ids c)" and "\<exists>d\<in>set c. map_of d ''item_id'' = Some v"
  shows "\<forall>d\<in>set (fst (delete_one c [(''item_id'', v)])). map_of d ''item_id'' \<noteq> Some v"
  using assms
proof (induction c)
  case Nil
  then show ?case by simp
next
  case (Cons d c)
  show ?case
  proof (cases "map_of d ''item_id'' = Some v")
    case True
    with Cons.prems(1) have "v \<notin> set (item_ids c)" by (simp add: item_ids_def)
    then show ?thesis using True by (simp add: matches_single item_ids_member)
  next
    case False
    with Cons.prems have "distinct (item_ids c)" "\<exists>d\<in>set c. map_of d ''item_id'' = Some v"
      by (auto simp: item_ids_def split: option.splits)
    from Cons.IH[OF this] False show ?thesis
      by (auto simp: matches_single split: prod.splits)
  qed
qed

lemma delete_missing:
  assumes "valid_credential db teacher_username" and "\<not> item_exists db iid"
  shows "delete_stock_item db iid teacher_username
              = (Inl (HTTPException 404 ''Stock item not found''), db)"
  using assms
  by (simp add: delete_stock_item_def check_teacher_valid[THEN iffD2] item_exists_truthy)

text \<open>
  C6. With a valid credential, deleting an identifier that is not stored
  fails with NotFound (status 404) and changes nothing. Deleting a stored
  identifier succeeds, and deleting it again right after fails with NotFound;
  this second half rests on the data model's invariant that no two stored
  items share an identifier.
\<close>

theorem delete_twice:
  assumes "valid_credential db teacher_username"
  shows "(\<not> item_exists db iid \<longrightarrow>
            delete_stock_item db iid teacher_username
              = (Inl (HTTPException 404 ''Stock item not found''), db))
       \<and> (item_exists db iid \<and> unique_item_ids db \<longrightarrow>
            (\<exists>msg db1. delete_stock_item db iid teacher_username = (Inr msg, db1)
               \<and> fst (delete_stock_item db1 iid teacher_username)
                   = Inl (HTTPException 404 ''Stock item not found'')))"
proof (intro conjI impI)
  assume "\<not> item_exists db iid"
  with assms show "delete_stock_item db iid teacher_username
              = (Inl (HTTPException 404 ''Stock item not found''), db)"
    by (rule delete_missing)
next
  assume a: "item_exists db iid \<and> unique_item_ids db"
  let ?q = "[(''item_id'', VStr iid)]"
  obtain c' n where del: "delete_one (stock_collection db) ?q = (c', n)" by force
  from a have ex: "\<exists>d\<in>set (stock_collection db). map_of d ''item_id'' = Some (VStr iid)"
    by (simp add: item_exists_def list_ex_iff)
  then have n: "n = 1"
    using delete_one_count[of "stock_collection db" ?q] del by (simp add: matches_single)
  let ?db1 = "db\<lparr>stock_collection := c'\<rparr>"
  have first: "delete_stock_item db iid teacher_username
       = (Inr [(''message'', VStr (''Stock item '' @ iid @ '' deleted successfully''))], ?db1)"
    using assms a del n
    by (simp add: delete_stock_item_def check_teacher_valid[THEN iffD2] item_exists_truthy)
  have "\<forall>d\<in>set c'. map_of d ''item_id'' \<noteq> Some (VStr iid)"
    using delete_one_gone[of "stock_collection db" "VStr iid"] a ex del
    by (simp add: unique_item_ids_def)
  then have gone: "\<not> item_exists ?db1 iid" by (simp add: item_exists_def list_ex_iff)
  have "valid_credential ?db1 teacher_username"
    using assms by (simp add: valid_credential_def credential_exists_def split: option.splits)
  from delete_missing[OF this gone]
  have "fst (delete_stock_item ?db1 iid teacher_username)
          = Inl (HTTPException 404 ''Stock item not found'')"
    by simp
  with first show "\<exists>msg db1. delete_stock_item db iid teacher_username = (Inr msg, db1)
               \<and> fst (delete_stock_item db1 iid teacher_username)
                   = Inl (HTTPException 404 ''Stock item not found'')"
    by blast
qed

theorem delete_twice_witness:
  "valid_credential example_db (Some ''mrodriguez'')
   \<and> \<not> item_exists example_db ''B1''
   \<and> delete_stock_item example_db ''B1'' (Some ''mrodriguez'')
       = (Inl (HTTPException 404 ''Stock item not found''), example_db)
   \<and> item_exists example_db ''A1'' \<and> unique_item_ids example_db
   \<and> fst (delete_stock_item example_db ''A1'' (Some ''mrodriguez''))
       = Inr [(''message'', VStr ''Stock item A1 deleted successfully'')]
   \<and> fst (delete_stock_item (snd (delete_stock_item example_db ''A1'' (Some ''mrodriguez'')))
            ''A1'' (Some ''mrodriguez''))
       = Inl (HTTPException 404 ''Stock item not found'')"
proof -
  from delete_twice[OF example_valid, of "''B1''"] example_B1
  have missing: "delete_stock_item example_db ''B1'' (Some ''mrodriguez'')
       = (Inl (HTTPException 404 ''Stock item not found''), example_db)"
    by blast
  from delete_twice[OF example_valid, of "''A1''"] example_A1 example_unique
  obtain msg db1 where
    first: "delete_stock_item example_db ''A1'' (Some ''mrodriguez'') = (Inr msg, db1)" and
    second: "fst (delete_stock_item db1 ''A1'' (Some ''mrodriguez''))
       = Inl (HTTPException 404 ''Stock item not found'')"
    by blast
  have "fst (delete_stock_item example_db ''A1'' (Some ''mrodriguez''))
       = Inr [(''message'', VStr ''Stock item A1 deleted successfully'')]"
    by code_simp
  with missing first second example_valid example_B1 example_A1 example_unique
  show ?thesis by simp
qed

subsection \<open>Categories\<close>

lemma set_distinct_values:
  "set (distinct_values c k) = {v. \<exists>d\<in>set c. map_of d k = Some v}"
proof -
  have "set (List.map_filter (\<lambda>d. map_of d k) c) = {v. \<exists>d\<in>set c. map_of d k = Some v}"
    by (induction c) (auto split: option.splits)
  then show ?thesis by (simp add: distinct_values_def)
qed

lemma distinct_distinct_values: "distinct (distinct_values c k)"
  by (simp add: distinct_values_def)

lemma categories_are_strings:
  assumes "stock_docs_ok db" and "v \<in> set (distinct_values (stock_collection db) ''category'')"
  shows "is_VStr v"
proof -
  from assms(2) obtain d where d: "d \<in> set (stock_collection db)" "map_of d ''category'' = Some v"
    by (auto simp: set_distinct_values)
  with assms(1) have "has_str d ''category''"
    by (simp add: stock_docs_ok_def list_all_iff stock_doc_def)
  with d(2) show ?thesis by (auto simp: has_str_iff)
qed

text \<open>
  The order of strings is the lexicographic order on character codes, so a
  sorted list without repetitions is strictly ascending in that order.
\<close>

lemma lexicographic_strict:
  fixes cs :: "string list"
  assumes "sorted cs" and "distinct cs"
  shows "sorted_wrt (\<lambda>a b. (a, b) \<in> lexord {(x, y). (of_char x :: nat) < of_char y}) cs"
proof -
  from assms have "sorted_wrt (<) cs" by (simp add: strict_sorted_iff)
  then show ?thesis
    by (rule sorted_wrt_mono_rel[rotated]) (simp add: list_less_def less_char_def)
qed

text \<open>
  C7. On a store of stock documents, the categories operation returns the
  category values of the stored items: every category that some stored item
  has, each exactly once however many items share it, in ascending
  lexicographic order.
\<close>

theorem categories_sorted_distinct:
  assumes "stock_docs_ok db"
  shows "\<exists>cs. get_categories db = Inr (map VStr cs)
          \<and> set cs = {c. \<exists>d\<in>set (stock_collection db). map_of d ''category'' = Some (VStr c)}
          \<and> distinct cs \<and> sorted cs
          \<and> sorted_wrt (\<lambda>a b. (a, b) \<in> lexord {(x, y). (of_char x :: nat) < of_char y}) cs"
proof -
  define vs where "vs = distinct_values (stock_collection db) ''category''"
  define cs where "cs = sort (map un_VStr vs)"
  have strs: "\<forall>v\<in>set vs. is_VStr v"
    unfolding vs_def using categories_are_strings[OF assms] by blast
  then have "list_all is_VStr vs" by (simp add: list_all_iff)
  then have 1: "get_categories db = Inr (map VStr cs)"
    by (simp add: get_categories_def py_sorted_def vs_def cs_def)
  have "set cs = un_VStr ` set vs" by (simp add: cs_def)
  also have "\<dots> = {c. VStr c \<in> set vs}"
  proof (intro set_eqI iffI)
    fix c assume "c \<in> un_VStr ` set vs"
    then obtain v where "v \<in> set vs" "c = un_VStr v" by blast
    with strs show "c \<in> {c. VStr c \<in> set vs}" by (cases v) auto
  next
    fix c assume "c \<in> {c. VStr c \<in> set vs}"
    then show "c \<in> un_VStr ` set vs" by force
  qed
  also have "\<dots> = {c. \<exists>d\<in>set (stock_collection db). map_of d ''category'' = Some (VStr c)}"
    by (simp add: vs_def set_distinct_values)
  finally have 2: "set cs
      = {c. \<exists>d\<in>set (stock_collection db). map_of d ''category'' = Some (VStr c)}" .
  have "inj_on un_VStr (set vs)"
  proof (rule inj_onI)
    fix a b assume "a \<in> set vs" "b \<in> set vs" "un_VStr a = un_VStr b"
    with strs show "a = b" by (cases a; cases b) auto
  qed
  then have 3: "distinct cs"
    by (simp add: cs_def vs_def distinct_map distinct_distinct_values)
  have 4: "sorted cs" by (simp add: cs_def)
  from 3 4 have 5:
    "sorted_wrt (\<lambda>a b. (a, b) \<in> lexord {(x, y). (of_char x :: nat) < of_char y}) cs"
    by (simp add: lexicographic_strict)
  from 1 2 3 4 5 show ?thesis by blast
qed

theorem categories_sorted_distinct_witness:
  "stock_docs_ok example_db
   \<and> get_categories example_db = Inr (map VStr [''Art Supplies'', ''Sports Equipment''])
   \<and> sorted [''Art Supplies'', ''Sports Equipment'']
   \<and> distinct [''Art Supplies'', ''Sports Equipment'']"
proof -
  from categories_sorted_distinct[OF example_docs_ok] obtain cs where
    g: "get_categories example_db = Inr (map VStr cs)" and d: "distinct cs" and s: "sorted cs"
    by blast
  have "get_categories example_db = Inr (map VStr [''Art Supplies'', ''Sports Equipment''])"
    by code_simp
  with g have "map VStr cs = map VStr [''Art Supplies'', ''Sports Equipment'']" by simp
  moreover have "inj VStr" by (simp add: inj_def)
  ultimately have "cs = [''Art Supplies'', ''Sports Equipment'']"
    by (simp only: inj_map_eq_map)
  with g d s example_docs_ok show ?thesis by simp
qed

subsection \<open>The category filter\<close>

lemma matches_category: "matches [(''category'', VStr c)] = has_category c"
  by (rule ext) (simp add: matches_single has_category_def)

lemma popped_category: "has_category c (dict_pop ''_id'' d) = has_category c d"
  by (simp add: has_category_def map_of_pop)

text \<open>
  C8, as the code has it. For a category argument that is not the empty
  string, the listing without the low-stock filter is exactly the stored items
  whose category equals the argument (without their \<open>_id\<close>), and whatever the
  low-stock flag, every returned item has that category. An empty category
  argument is read as no category: the listing is the one of a request
  without the argument.
\<close>

theorem category_filter_exact:
  "(c \<noteq> [] \<longrightarrow>
      get_stock_items db (Some c) None
        = Inr (map (dict_pop ''_id'') (filter (has_category c) (stock_collection db)))
      \<and> (\<forall>items. get_stock_items db (Some c) low_stock = Inr items
            \<longrightarrow> (\<forall>d\<in>set items. map_of d ''category'' = Some (VStr c))))
   \<and> get_stock_items db (Some []) low_stock = get_stock_items db None low_stock"
proof (intro conjI impI allI)
  assume c: "c \<noteq> []"
  show "get_stock_items db (Some c) None
        = Inr (map (dict_pop ''_id'') (filter (has_category c) (stock_collection db)))"
    using c
    by (simp add: get_stock_items_def truthy_str_def truthy_bool_def find_docs_def
        matches_category)
  fix items
  assume r: "get_stock_items db (Some c) low_stock = Inr items"
  let ?all = "map (dict_pop ''_id'') (filter (has_category c) (stock_collection db))"
  have "set items \<subseteq> set ?all"
    using get_stock_items_subset[OF r] c
    by (simp add: truthy_str_def find_docs_def matches_category)
  moreover have "\<forall>d\<in>set ?all. has_category c d" by (auto simp: popped_category)
  ultimately show "\<forall>d\<in>set items. map_of d ''category'' = Some (VStr c)"
    by (auto simp: has_category_def)
next
  show "get_stock_items db (Some []) low_stock = get_stock_items db None low_stock"
    by (simp add: get_stock_items_def truthy_str_def)
qed

theorem category_filter_exact_witness:
  "''Art Supplies'' \<noteq> []
   \<and> get_stock_items example_db (Some ''Art Supplies'') None = Inr [listed_a1, listed_a3]
   \<and> map_of listed_a1 ''category'' = Some (VStr ''Art Supplies'')
   \<and> map_of listed_a3 ''category'' = Some (VStr ''Art Supplies'')"
  using category_filter_exact[of "''Art Supplies''" example_db None]
  by (simp add: example_defs has_category_def dict_pop_def listed_a1_def listed_a3_def)

text \<open>
  C8 as stated fails at the empty string: the request supplies the category
  \<open>''''\<close>, the handler drops the filter, and the listing holds \<open>A1\<close>, whose
  category is \<open>Art Supplies\<close>.
\<close>

theorem category_filter_empty_counterexample:
  "get_stock_items example_db (Some '''') None = Inr [listed_a1, listed_a2, listed_a3]
   \<and> map_of listed_a1 ''category'' = Some (VStr ''Art Supplies'')
   \<and> map_of listed_a1 ''category'' \<noteq> Some (VStr '''')"
  by (simp add: get_stock_items_def example_defs find_docs_def matches_def
      truthy_bool_def truthy_str_def dict_pop_def listed_a1_def listed_a2_def listed_a3_def)

subsection \<open>The internal key\<close>

lemma popped_no_id: "''_id'' \<notin> set (map fst (dict_pop ''_id'' d))"
  by (simp add: dict_pop_def delete_notin_dom)

lemma id_not_declared: "''_id'' \<notin> set declared_fields"
  by (simp add: declared_fields_def)

lemma popped_keys:
  assumes "stock_doc d"
  shows "set (map fst (dict_pop ''_id'' d)) = set declared_fields"
proof -
  from assms have "set (map fst d) = insert ''_id'' (set declared_fields)"
    by (simp add: stock_doc_def)
  then have "set (map fst (dict_pop ''_id'' d))
      = insert ''_id'' (set declared_fields) - {''_id''}"
    by (simp only: keys_pop)
  also have "\<dots> = set declared_fields"
    using id_not_declared by blast
  finally show ?thesis .
qed

text \<open>
  C10. No item that a successful read returns, from the listing or from get
  item, has the key \<open>_id\<close>; and on a store of stock documents the keys of a
  returned item are exactly the declared fields.
\<close>

theorem reads_strip_id:
  "(get_stock_items db category_arg low_stock = Inr items \<longrightarrow>
      (\<forall>d\<in>set items. ''_id'' \<notin> set (map fst d)
          \<and> (stock_docs_ok db \<longrightarrow> set (map fst d) = set declared_fields)))
   \<and> (get_stock_item db iid = Inr item \<longrightarrow>
        ''_id'' \<notin> set (map fst item)
        \<and> (stock_docs_ok db \<longrightarrow> set (map fst item) = set declared_fields))"
proof (intro conjI impI ballI)
  fix d
  assume r: "get_stock_items db category_arg low_stock = Inr items" and d: "d \<in> set items"
  from get_stock_items_subset[OF r] d obtain d0 where
    d0: "d0 \<in> set (stock_collection db)" "d = dict_pop ''_id'' d0"
    by (auto simp: find_docs_def)
  show "''_id'' \<notin> set (map fst d)" unfolding d0 by (rule popped_no_id)
  assume "stock_docs_ok db"
  with d0 have "stock_doc d0" by (simp add: stock_docs_ok_def list_all_iff)
  then show "set (map fst d) = set declared_fields" unfolding d0 by (rule popped_keys)
next
  assume r: "get_stock_item db iid = Inr item"
  then obtain d0 where f: "find_one (stock_collection db) [(''item_id'', VStr iid)] = Some d0"
     and i: "item = dict_pop ''_id'' d0"
    by (auto simp: get_stock_item_def Let_def split: option.splits if_splits)
  show "''_id'' \<notin> set (map fst item)" unfolding i by (rule popped_no_id)
  assume "stock_docs_ok db"
  moreover from f have "d0 \<in> set (stock_collection db)"
    by (auto simp: find_one_def find_Some_iff)
  ultimately have "stock_doc d0" by (simp add: stock_docs_ok_def list_all_iff)
  then show "set (map fst item) = set declared_fields" unfolding i by (rule popped_keys)
qed

theorem reads_strip_id_witness:
  "get_stock_items example_db None None = Inr [listed_a1, listed_a2, listed_a3]
   \<and> get_stock_item example_db ''A2'' = Inr listed_a2
   \<and> stock_docs_ok example_db
   \<and> ''_id'' \<notin> set (map fst listed_a1)
   \<and> set (map fst listed_a1) = set declared_fields
   \<and> ''_id'' \<notin> set (map fst listed_a2)
   \<and> set (map fst listed_a2) = set declared_fields"
proof -
  have one: "get_stock_item example_db ''A2'' = Inr listed_a2"
    by (simp add: get_stock_item_def example_defs find_one_def matches_def
        truthy_doc_def dict_pop_def listed_a2_def)
  have mem: "listed_a1 \<in> set [listed_a1, listed_a2, listed_a3]" by simp
  from reads_strip_id[of example_db None None "[listed_a1, listed_a2, listed_a3]"
         "''A2''" listed_a2]
       example_list_all one example_docs_ok mem
  show ?thesis by blast
qed

subsection \<open>The handlers keep the data model\<close>

text \<open>
  The two assumptions on the store used above, that it holds stock documents
  and that identifiers are unique, are kept by every mutating handler: a store
  that starts empty never leaves them.
\<close>

lemma stock_doc_new: "stock_doc ((''_id'', v) # model_dump item)"
  by (simp add: stock_doc_def model_dump_def declared_fields_def has_str_def has_int_def)

lemma dump_item_id: "map_of (model_dump item) ''item_id'' = Some (VStr (item_id item))"
  by (simp add: model_dump_def)

lemma item_ids_snoc:
  "item_ids (c @ [d]) = item_ids c @ (case map_of d ''item_id'' of None \<Rightarrow> [] | Some v \<Rightarrow> [v])"
  by (induction c) (auto simp: item_ids_def split: option.splits)

lemma stock_doc_update:
  assumes "stock_doc d"
  shows "stock_doc (AList.update ''quantity'' (VInt n) d)"
proof -
  have q: "''quantity'' \<in> set (map fst d)"
    using assms by (simp add: stock_doc_def declared_fields_def)
  then have keys: "map fst (AList.update ''quantity'' (VInt n) d) = map fst d"
    by (simp add: update_keys)
  have strs: "has_str (AList.update ''quantity'' (VInt n) d) k = has_str d k"
    if "k \<noteq> ''quantity''" for k
    using that by (simp add: has_str_def update_conv')
  have i1: "has_int (AList.update ''quantity'' (VInt n) d) ''quantity''"
    by (simp add: has_int_def update_conv')
  have i2: "has_int (AList.update ''quantity'' (VInt n) d) ''min_quantity''
              = has_int d ''min_quantity''"
    by (simp add: has_int_def update_conv')
  from assms show ?thesis
    unfolding stock_doc_def keys by (simp add: strs i1 i2)
qed

lemma update_one_docs:
  "list_all stock_doc c \<Longrightarrow> list_all stock_doc (fst (update_one c q ''quantity'' (VInt n)))"
  by (induction c) (auto simp: stock_doc_update split: prod.splits)

lemma update_one_ids: "item_ids (fst (update_one c q ''quantity'' v)) = item_ids c"
  by (induction c) (auto simp: item_ids_def update_conv' split: prod.splits option.splits)

lemma delete_one_subset: "set (fst (delete_one c q)) \<subseteq> set c"
  by (induction c) (auto split: prod.splits)

lemma delete_one_ids: "distinct (item_ids c) \<Longrightarrow> distinct (item_ids (fst (delete_one c q)))"
proof (induction c)
  case Nil
  then show ?case by simp
next
  case (Cons d c)
  have "v \<in> set (item_ids (fst (delete_one c q))) \<Longrightarrow> v \<in> set (item_ids c)" for v
    using delete_one_subset[of c q] unfolding item_ids_member by blast
  with Cons show ?case
    by (auto simp: item_ids_def split: prod.splits option.splits)
qed

lemma empty_store_ok:
  "stock_docs_ok (db\<lparr>stock_collection := []\<rparr>) \<and> unique_item_ids (db\<lparr>stock_collection := []\<rparr>)"
  by (simp add: stock_docs_ok_def unique_item_ids_def item_ids_def)

lemma create_preserves:
  assumes "stock_docs_ok db" and "unique_item_ids db"
  shows "stock_docs_ok (snd (create_stock_item db item u))
       \<and> unique_item_ids (snd (create_stock_item db item u))"
proof (cases "check_teacher db u = None \<and> \<not> item_exists db (item_id item)")
  case True
  then have "VStr (item_id item) \<notin> set (item_ids (stock_collection db))"
    by (simp add: item_ids_member item_exists_def list_ex_iff)
  with True assms show ?thesis
    by (simp add: create_stock_item_def item_exists_truthy insert_one_dump stock_docs_ok_def
        unique_item_ids_def stock_doc_new item_ids_snoc dump_item_id)
next
  case False
  with assms show ?thesis
    by (auto simp: create_stock_item_def item_exists_truthy split: option.splits)
qed

lemma update_preserves:
  assumes "stock_docs_ok db" and "unique_item_ids db"
  shows "stock_docs_ok (snd (update_stock_quantity db iid upd u))
       \<and> unique_item_ids (snd (update_stock_quantity db iid upd u))"
proof -
  let ?r = "update_one (stock_collection db) [(''item_id'', VStr iid)]
              ''quantity'' (VInt (update_quantity upd))"
  have "list_all stock_doc (fst ?r)" "distinct (item_ids (fst ?r))"
    using assms
    by (simp_all add: stock_docs_ok_def unique_item_ids_def update_one_docs update_one_ids)
  with assms show ?thesis
    by (cases ?r) (auto simp: update_stock_quantity_def stock_docs_ok_def unique_item_ids_def
        split: option.splits)
qed

lemma delete_preserves:
  assumes "stock_docs_ok db" and "unique_item_ids db"
  shows "stock_docs_ok (snd (delete_stock_item db iid u))
       \<and> unique_item_ids (snd (delete_stock_item db iid u))"
proof -
  let ?r = "delete_one (stock_collection db) [(''item_id'', VStr iid)]"
  have "list_all stock_doc (fst ?r)" "distinct (item_ids (fst ?r))"
    using assms delete_one_subset[of "stock_collection db" "[(''item_id'', VStr iid)]"]
    by (auto simp: stock_docs_ok_def unique_item_ids_def delete_one_ids list_all_iff)
  with assms show ?thesis
    by (cases ?r) (auto simp: delete_stock_item_def stock_docs_ok_def unique_item_ids_def
        split: option.splits)
qed

end
